theory Spec2Isabelle
  imports Main "HOL-Library.Sublist"
begin

section \<open>JavaScript strings\<close>

text \<open>
  A JavaScript string is modelled as a \<open>string\<close>: a list of code units, each below 256
  (the bundle text restricted to the Latin-1 range).  The character classes are those
  of the ECMAScript pattern language restricted to that range: \<open>\s\<close> and \<open>trim\<close> share
  the white space set (tab, line feed, vertical tab, form feed, carriage return,
  space, no-break space), and \<open>.\<close> and the multi-line \<open>$\<close> know the line terminators
  line feed and carriage return.
\<close>

abbreviation NL :: char where "NL \<equiv> CHR 0x0A"
abbreviation CR :: char where "CR \<equiv> CHR 0x0D"
abbreviation DQ :: char where "DQ \<equiv> CHR 0x22"
abbreviation SQ :: char where "SQ \<equiv> CHR 0x27"

definition is_space :: "char \<Rightarrow> bool" where
  "is_space c = (c \<in> set [CHR 0x09, NL, CHR 0x0B, CHR 0x0C, CR, CHR 0x20, CHR 0xA0])"

definition line_term :: "char \<Rightarrow> bool" where
  "line_term c = (c = NL \<or> c = CR)"

definition is_digit :: "char \<Rightarrow> bool" where
  "is_digit c = (c \<in> set ''0123456789'')"

definition is_upper :: "char \<Rightarrow> bool" where
  "is_upper c = (c \<in> set ''ABCDEFGHIJKLMNOPQRSTUVWXYZ'')"

definition is_lower :: "char \<Rightarrow> bool" where
  "is_lower c = (c \<in> set ''abcdefghijklmnopqrstuvwxyz'')"

text \<open>\<open>[a-zA-Z0-9]\<close>, \<open>[a-zA-Z_$]\<close>, \<open>[a-zA-Z0-9_$]\<close> and \<open>[ \t]\<close>.\<close>

definition alnum :: "char \<Rightarrow> bool" where
  "alnum c = (is_lower c \<or> is_upper c \<or> is_digit c)"

definition id_start :: "char \<Rightarrow> bool" where
  "id_start c = (is_lower c \<or> is_upper c \<or> c = CHR ''_'' \<or> c = CHR ''$'')"

definition id_char :: "char \<Rightarrow> bool" where
  "id_char c = (is_lower c \<or> is_upper c \<or> is_digit c \<or> c = CHR ''_'' \<or> c = CHR ''$'')"

definition blank :: "char \<Rightarrow> bool" where
  "blank c = (c = CHR 0x20 \<or> c = CHR 0x09)"

definition any_char :: "char \<Rightarrow> bool" where
  "any_char c = True"

text \<open>\<open>String.prototype.trim\<close>, \<open>startsWith\<close> is \<^const>\<open>prefix\<close>, \<open>includes\<close>,
  \<open>split(',')\<close> and \<open>join\<close>.\<close>

definition trim :: "string \<Rightarrow> string" where
  "trim s = rev (dropWhile is_space (rev (dropWhile is_space s)))"

fun includes_str :: "string \<Rightarrow> string \<Rightarrow> bool" where
  "includes_str [] l = (l = [])"
| "includes_str (c # cs) l = (prefix l (c # cs) \<or> includes_str cs l)"

fun split_on :: "char \<Rightarrow> string \<Rightarrow> string list" where
  "split_on d [] = [[]]"
| "split_on d (c # cs) =
     (if c = d then [] # split_on d cs
      else (case split_on d cs of [] \<Rightarrow> [[c]] | x # xs \<Rightarrow> (c # x) # xs))"

fun join :: "string \<Rightarrow> string list \<Rightarrow> string" where
  "join sep [] = []"
| "join sep [x] = x"
| "join sep (x # y # ys) = x @ sep @ join sep (y # ys)"

text \<open>\<open>s.replace(pat, '')\<close> with a string pattern: the first occurrence of \<open>pat\<close> is
  deleted, a string without one is returned as it is.\<close>

fun remove_first :: "string \<Rightarrow> string \<Rightarrow> string" where
  "remove_first pat [] = []"
| "remove_first pat (c # cs) =
     (if prefix pat (c # cs) then drop (length pat) (c # cs) else c # remove_first pat cs)"

text \<open>\<open>s.indexOf(pat)\<close> followed by \<open>s.substring\<close> of the index found: the text from
  the first occurrence of \<open>pat\<close> on, \<open>None\<close> for the index -1.\<close>

fun substring_from :: "string \<Rightarrow> string \<Rightarrow> string option" where
  "substring_from pat [] = (if pat = [] then Some [] else None)"
| "substring_from pat (c # cs) =
     (if prefix pat (c # cs) then Some (c # cs) else substring_from pat cs)"

section \<open>Backtracking patterns\<close>

text \<open>
  A pattern of the source is written with the combinators below, one per construct,
  in continuation-passing style: a matcher takes the continuation that matches the
  rest of the pattern and the text still to read, and returns the continuation's
  result for the first alternative, in the order a backtracking matcher tries them,
  on which the continuation succeeds.  A greedy quantifier tries the longest
  repetition first, a lazy one the shortest.  A quantified class hands the text it
  read to its continuation (a capture group).
\<close>

fun lit :: "string \<Rightarrow> (string \<Rightarrow> 'r option) \<Rightarrow> string \<Rightarrow> 'r option" where
  "lit [] k s = k s"
| "lit (c # cs) k [] = None"
| "lit (c # cs) k (d # ds) = (if c = d then lit cs k ds else None)"

fun one :: "(char \<Rightarrow> bool) \<Rightarrow> (char \<Rightarrow> string \<Rightarrow> 'r option) \<Rightarrow> string \<Rightarrow> 'r option" where
  "one C k [] = None"
| "one C k (c # cs) = (if C c then k c cs else None)"

fun star_g :: "(char \<Rightarrow> bool) \<Rightarrow> string \<Rightarrow> (string \<Rightarrow> string \<Rightarrow> 'r option) \<Rightarrow> string \<Rightarrow> 'r option" where
  "star_g C acc k [] = k acc []"
| "star_g C acc k (c # cs) =
     (if C c then (case star_g C (acc @ [c]) k cs of Some r \<Rightarrow> Some r | None \<Rightarrow> k acc (c # cs))
      else k acc (c # cs))"

fun star_l :: "(char \<Rightarrow> bool) \<Rightarrow> string \<Rightarrow> (string \<Rightarrow> string \<Rightarrow> 'r option) \<Rightarrow> string \<Rightarrow> 'r option" where
  "star_l C acc k [] = k acc []"
| "star_l C acc k (c # cs) =
     (case k acc (c # cs) of Some r \<Rightarrow> Some r
      | None \<Rightarrow> if C c then star_l C (acc @ [c]) k cs else None)"

definition plus_g :: "(char \<Rightarrow> bool) \<Rightarrow> (string \<Rightarrow> string \<Rightarrow> 'r option) \<Rightarrow> string \<Rightarrow> 'r option" where
  "plus_g C k = one C (\<lambda>c. star_g C [c] k)"

definition plus_l :: "(char \<Rightarrow> bool) \<Rightarrow> (string \<Rightarrow> string \<Rightarrow> 'r option) \<Rightarrow> string \<Rightarrow> 'r option" where
  "plus_l C k = one C (\<lambda>c. star_l C [c] k)"

fun opt_g :: "char \<Rightarrow> (string \<Rightarrow> 'r option) \<Rightarrow> string \<Rightarrow> 'r option" where
  "opt_g x k [] = k []"
| "opt_g x k (c # cs) =
     (if c = x then (case k cs of Some r \<Rightarrow> Some r | None \<Rightarrow> k (c # cs)) else k (c # cs))"

text \<open>\<open>$\<close> without the multi-line flag (the end of the text), \<open>$\<close> with it (the end, or
  before a line terminator), and the end of a pattern, which returns the captures
  and the text left.\<close>

definition eos :: "(string \<Rightarrow> 'r option) \<Rightarrow> string \<Rightarrow> 'r option" where
  "eos k s = (if s = [] then k s else None)"

definition eol :: "(string \<Rightarrow> 'r option) \<Rightarrow> string \<Rightarrow> 'r option" where
  "eol k s = (case s of [] \<Rightarrow> k s | c # _ \<Rightarrow> if line_term c then k s else None)"

definition accept :: "'g \<Rightarrow> string \<Rightarrow> ('g \<times> string) option" where
  "accept g s = Some (g, s)"

text \<open>
  \<open>re.exec\<close> of a global pattern tries the start positions from left to right; the
  result is the captures, the text matched and the text after the match.  The loop
  \<open>while ((match = re.exec(s)) !== null)\<close> collects the matches one after the other.
  Every pattern of the source reads at least one character, so the text left gets
  shorter with each match; the guard below is what makes this recursion total for an
  arbitrary matcher.
\<close>

definition matched :: "string \<Rightarrow> string \<Rightarrow> string" where
  "matched s r = take (length s - length r) s"

fun exec :: "(string \<Rightarrow> ('g \<times> string) option) \<Rightarrow> string \<Rightarrow> ('g \<times> string \<times> string) option" where
  "exec m [] = (case m [] of None \<Rightarrow> None | Some (g, r) \<Rightarrow> Some (g, [], []))"
| "exec m (c # cs) =
     (case m (c # cs) of
        Some (g, r) \<Rightarrow> Some (g, matched (c # cs) r, r)
      | None \<Rightarrow> exec m cs)"

function exec_loop :: "(string \<Rightarrow> ('g \<times> string) option) \<Rightarrow> string \<Rightarrow> ('g \<times> string) list" where
  "exec_loop m s =
     (case exec m s of
        None \<Rightarrow> []
      | Some (g, full, r) \<Rightarrow> (g, full) # (if length r < length s then exec_loop m r else []))"
  by pat_completeness auto
termination
  by (relation "measure (\<lambda>(m, s). length s)") auto

declare exec_loop.simps [simp del]

text \<open>\<open>re.test(s)\<close> on a fresh pattern, and \<open>s.replace(re, ...)\<close> for a global pattern
  (every match, left to right, each search starting where the last match ended) and
  for a pattern without the global flag (the first match only).\<close>

definition test :: "(string \<Rightarrow> ('g \<times> string) option) \<Rightarrow> string \<Rightarrow> bool" where
  "test m s = (exec m s \<noteq> None)"

fun replace_all :: "(string \<Rightarrow> ('g \<times> string) option) \<Rightarrow> ('g \<Rightarrow> string) \<Rightarrow> string \<Rightarrow> string" where
  "replace_all m f [] = (case m [] of None \<Rightarrow> [] | Some (g, r) \<Rightarrow> f g)"
| "replace_all m f (c # cs) =
     (case m (c # cs) of
        None \<Rightarrow> c # replace_all m f cs
      | Some (g, r) \<Rightarrow>
          if length r \<le> length cs then f g @ replace_all m f r
          else f g @ c # replace_all m f cs)"

fun replace_first :: "(string \<Rightarrow> ('g \<times> string) option) \<Rightarrow> ('g \<Rightarrow> string) \<Rightarrow> string \<Rightarrow> string" where
  "replace_first m f [] = (case m [] of None \<Rightarrow> [] | Some (g, r) \<Rightarrow> f g)"
| "replace_first m f (c # cs) =
     (case m (c # cs) of
        None \<Rightarrow> c # replace_first m f cs
      | Some (g, r) \<Rightarrow> f g @ r)"

section \<open>The deconstructor object and the bundle scanner\<close>

text \<open>
  The object of class \<open>WebpackDeconstructor\<close>.  Its \<open>modules\<close> field is a JavaScript
  \<open>Map\<close>: the entries in insertion order, \<open>set\<close> on a key that is present replacing its
  value in place.  The fields \<open>path\<close>, \<open>params\<close>, \<open>content\<close> and \<open>dependencies\<close> of a
  module's entry carry the prefix \<open>mod_\<close> here.
\<close>

record module_data =
  mod_path :: string
  mod_params :: "string list"
  mod_content :: string
  mod_dependencies :: "string list"

record deconstructor =
  inputFile :: string
  outputDir :: string
  modules :: "(string \<times> module_data) list"
  dependencies :: "(string \<times> string list) list"

fun map_set :: "'k \<Rightarrow> 'v \<Rightarrow> ('k \<times> 'v) list \<Rightarrow> ('k \<times> 'v) list" where
  "map_set k v [] = [(k, v)]"
| "map_set k v ((k', v') # m) = (if k' = k then (k, v) # m else (k', v') # map_set k v m)"

definition constructor :: "string \<Rightarrow> string \<Rightarrow> deconstructor" where
  "constructor inFile outDir =
     \<lparr>inputFile = inFile, outputDir = outDir, modules = [], dependencies = []\<rparr>"

datatype error = Error string

text \<open>
  Line 72, the pattern of one module of the registry:
  \<^verbatim>\<open>/\/\*\*\*\/ "([^"]+)":\s*[\s\S]*?\/\*\*\*\/ \(function\(([^)]*)\) \{\s*([\s\S]*?)\n\/\*\*\*\/ \}\),?\s*(?=\/\*\*\*\/ "|$)/g\<close>
  The three captures are the module path, the parameter list and the module content.
\<close>

definition module_close :: "string \<times> string \<times> string \<Rightarrow> string \<Rightarrow> ((string \<times> string \<times> string) \<times> string) option" where
  \<open>module_close g =
     lit (NL # ''/***/ })'') (opt_g (CHR '','') (star_g is_space [] (\<lambda>_ s.
       if prefix ''/***/ "'' s \<or> s = [] then accept g s else None)))\<close>

definition module_body :: "string \<Rightarrow> string \<Rightarrow> string \<Rightarrow> ((string \<times> string \<times> string) \<times> string) option" where
  \<open>module_body modulePath ps =
     star_g is_space [] (\<lambda>_. star_l any_char [] (\<lambda>moduleContent.
       module_close (modulePath, ps, moduleContent)))\<close>

definition module_function :: "string \<Rightarrow> string \<Rightarrow> ((string \<times> string \<times> string) \<times> string) option" where
  \<open>module_function modulePath =
     lit ''/***/ (function('' (star_g (\<lambda>c. c \<noteq> CHR '')'') [] (\<lambda>ps.
       lit '') {'' (module_body modulePath ps)))\<close>

definition moduleRegex :: "string \<Rightarrow> ((string \<times> string \<times> string) \<times> string) option" where
  \<open>moduleRegex =
     lit ''/***/ "'' (plus_g (\<lambda>c. c \<noteq> DQ) (\<lambda>modulePath.
       lit ''":'' (star_g is_space [] (\<lambda>_. star_l any_char [] (\<lambda>_.
         module_function modulePath)))))\<close>

text \<open>Lines 54 to 97.  The loop keeps the modules map and the count of application
  modules; a module whose path starts with \<open>./node_modules/\<close> changes neither.\<close>

definition parse_step :: "(string \<times> string \<times> string) \<times> string \<Rightarrow>
    (string \<times> module_data) list \<times> nat \<Rightarrow> (string \<times> module_data) list \<times> nat" where
  "parse_step m st =
     (case m of ((modulePath, ps, moduleContent), full) \<Rightarrow>
        if \<not> prefix ''./node_modules/'' modulePath
        then (map_set modulePath
                \<lparr>mod_path = modulePath, mod_params = map trim (split_on (CHR '','') ps),
                 mod_content = trim moduleContent, mod_dependencies = []\<rparr> (fst st),
              Suc (snd st))
        else st)"

definition parseModules :: "deconstructor \<Rightarrow> string \<Rightarrow> error + deconstructor" where
  "parseModules this bundleContent =
     (case substring_from ''/******/ ({'' bundleContent of
        None \<Rightarrow> Inl (Error ''Could not find webpack module map in bundle'')
      | Some moduleMapSection \<Rightarrow>
          (case fold parse_step (exec_loop moduleRegex moduleMapSection) (modules this, 0) of
             (ms, moduleCount) \<Rightarrow>
               if moduleCount = 0
               then Inl (Error ''No application modules found. The bundle format might be different than expected.'')
               else Inr (this\<lparr>modules := ms\<rparr>)))"

section \<open>The path resolver\<close>

text \<open>
  Modelled from the spec: \<open>path.dirname\<close> and \<open>path.relative\<close> are functions of the
  Node.js runtime (POSIX flavour), not of this repository; the spec describes them as
  the directory of a path and "a relative path from that directory to the `to` path
  using standard path-segment resolution".  \<open>dirname\<close> drops the trailing slashes and
  the last component.  \<open>relative\<close> resolves both paths against the working directory
  (\<open>cwd\<close>, the segments of an absolute path), drops the segments they share, and climbs
  with one \<open>..\<close> for each segment left of the first before descending into the second.
\<close>

definition dirname :: "string \<Rightarrow> string" where
  "dirname p =
     (if p = [] then ''.''
      else let r = dropWhile (\<lambda>c. c \<noteq> CHR ''/'') (dropWhile (\<lambda>c. c = CHR ''/'') (rev p)) in
        if length r \<le> 1 then (if hd p = CHR ''/'' then ''/'' else ''.'')
        else if hd p = CHR ''/'' \<and> length r = 2 then ''//''
        else take (length r - 1) p)"

definition normalize_onto :: "string list \<Rightarrow> string list \<Rightarrow> string list" where
  "normalize_onto stack segs =
     fold (\<lambda>seg st. if seg = [] \<or> seg = ''.'' then st
                     else if seg = ''..'' then butlast st else st @ [seg]) segs stack"

definition resolve :: "string list \<Rightarrow> string \<Rightarrow> string list" where
  "resolve cwd p =
     (if p \<noteq> [] \<and> hd p = CHR ''/'' then normalize_onto [] (split_on (CHR ''/'') p)
      else normalize_onto cwd (split_on (CHR ''/'') p))"

fun strip_common :: "string list \<Rightarrow> string list \<Rightarrow> string list \<times> string list" where
  "strip_common (x # xs) (y # ys) = (if x = y then strip_common xs ys else (x # xs, y # ys))"
| "strip_common xs ys = (xs, ys)"

definition relative :: "string list \<Rightarrow> string \<Rightarrow> string \<Rightarrow> string" where
  "relative cwd from to =
     (if from = to then []
      else case strip_common (resolve cwd from) (resolve cwd to) of
        (up, down) \<Rightarrow> join ''/'' (map (\<lambda>_. ''..'') up @ down))"

text \<open>Lines 230 to 246; \<open>replace(/^\.\//, '')\<close> is \<open>strip_dot_slash\<close>.\<close>

definition strip_dot_slash :: "string \<Rightarrow> string" where
  "strip_dot_slash p = (if prefix ''./'' p then drop 2 p else p)"

definition calculateRelativePath :: "string list \<Rightarrow> string \<Rightarrow> string \<Rightarrow> string" where
  "calculateRelativePath cwd fromPath toPath =
     (let cleanFromPath = strip_dot_slash fromPath;
          cleanToPath = strip_dot_slash toPath;
          fromDir = dirname cleanFromPath;
          toFile = cleanToPath;
          relativePath = relative cwd fromDir toFile
      in if \<not> prefix ''.'' relativePath then ''./'' @ relativePath else relativePath)"

section \<open>The import rewriter\<close>

text \<open>
  Lines 251 to 281.  The patterns are
  \<^verbatim>\<open>/\.(ts|js)$/\<close>, \<^verbatim>\<open>/^_(.+?)__WEBPACK_IMPORTED_MODULE_\d+__$/\<close>,
  \<^verbatim>\<open>/^[A-Z][a-zA-Z0-9]*$/\<close> and \<^verbatim>\<open>/([a-zA-Z_$][a-zA-Z0-9_$]*)/\<close>.
  \<open>relativePath.replace(/\.(ts|js)$/, '')\<close> is \<open>strip_extension\<close>, and
  \<open>importName.replace(/_/g, '')\<close> deletes every underscore.  The result \<open>null\<close> is
  \<open>None\<close>.
\<close>

definition alt :: "(string \<Rightarrow> 'r option) \<Rightarrow> (string \<Rightarrow> 'r option) \<Rightarrow> string \<Rightarrow> 'r option" where
  "alt a b s = (case a s of Some r \<Rightarrow> Some r | None \<Rightarrow> b s)"

definition extensionRegex :: "string \<Rightarrow> (unit \<times> string) option" where
  "extensionRegex = lit ''.'' (alt (lit ''ts'' (eos (accept ()))) (lit ''js'' (eos (accept ()))))"

abbreviation IMPORTED_MODULE :: string where
  "IMPORTED_MODULE \<equiv> ''__WEBPACK_IMPORTED_MODULE_''"

definition nameRegex :: "string \<Rightarrow> (string \<times> string) option" where
  "nameRegex =
     lit ''_'' (plus_l (\<lambda>c. \<not> line_term c) (\<lambda>importName.
       lit IMPORTED_MODULE (plus_g is_digit (\<lambda>_. lit ''__'' (eos (accept importName))))))"

definition pascalRegex :: "string \<Rightarrow> (unit \<times> string) option" where
  "pascalRegex = one is_upper (\<lambda>_. star_g alnum [] (\<lambda>_. eos (accept ())))"

definition identifierRegex :: "string \<Rightarrow> (string \<times> string) option" where
  "identifierRegex = one id_start (\<lambda>c. star_g id_char [c] (\<lambda>name. accept name))"

definition import_from :: "string \<Rightarrow> string \<Rightarrow> string" where
  "import_from binding cleanPath = ''import '' @ binding @ '' from '' @ [SQ] @ cleanPath @ [SQ] @ '';''"

definition strip_extension :: "string \<Rightarrow> string" where
  "strip_extension relativePath = replace_first extensionRegex (\<lambda>_. []) relativePath"

definition generateImportStatement :: "string \<Rightarrow> string \<Rightarrow> string option" where
  "generateImportStatement varName relativePath =
     (let cleanPath = strip_extension relativePath in
      case (if includes_str varName IMPORTED_MODULE then nameRegex varName else None) of
        Some (importName, _) \<Rightarrow>
          if pascalRegex importName \<noteq> None \<and> \<not> includes_str importName ''_''
          then Some (import_from importName cleanPath)
          else Some (import_from (''{ '' @ filter (\<lambda>c. c \<noteq> CHR ''_'') importName @ '' }'') cleanPath)
      | None \<Rightarrow>
          (case exec identifierRegex varName of
             Some (name, _, _) \<Rightarrow> Some (import_from (''{ '' @ name @ '' }'') cleanPath)
           | None \<Rightarrow> None))"

text \<open>
  Lines 286 to 306: three global replacements, one after the other, with the patterns
  \<^verbatim>\<open>/([a-zA-Z_$][a-zA-Z0-9_$]*__WEBPACK_IMPORTED_MODULE_\d+__)\["([^"]+)"\]/g\<close>,
  \<^verbatim>\<open>/([a-zA-Z_$][a-zA-Z0-9_$]*)___default/g\<close> (whose replacement is computed with
  \<^verbatim>\<open>/^_(.+?)__WEBPACK_IMPORTED_MODULE_\d+$/\<close>) and
  \<^verbatim>\<open>/_([a-zA-Z_$][a-zA-Z0-9_$]*)__WEBPACK_IMPORTED_MODULE_\d+__/g\<close>.
\<close>

definition usageRegex :: "string \<Rightarrow> (string \<times> string) option" where
  \<open>usageRegex =
     one id_start (\<lambda>c. star_g id_char [c] (\<lambda>_.
       lit IMPORTED_MODULE (plus_g is_digit (\<lambda>_. lit ''__'' (
         lit ''["'' (plus_g (\<lambda>c. c \<noteq> DQ) (\<lambda>name. lit ''"]'' (accept name))))))))\<close>

definition defaultUsageRegex :: "string \<Rightarrow> (string \<times> string) option" where
  "defaultUsageRegex =
     one id_start (\<lambda>c. star_g id_char [c] (\<lambda>varName. lit ''___default'' (accept varName)))"

definition defaultNameRegex :: "string \<Rightarrow> (string \<times> string) option" where
  "defaultNameRegex =
     lit ''_'' (plus_l (\<lambda>c. \<not> line_term c) (\<lambda>name.
       lit IMPORTED_MODULE (plus_g is_digit (\<lambda>_. eos (accept name)))))"

definition directUsageRegex :: "string \<Rightarrow> (string \<times> string) option" where
  "directUsageRegex =
     lit ''_'' (one id_start (\<lambda>c. star_g id_char [c] (\<lambda>name.
       lit IMPORTED_MODULE (plus_g is_digit (\<lambda>_. lit ''__'' (accept name))))))"

definition replaceImportUsage :: "string \<Rightarrow> string" where
  "replaceImportUsage content =
     (let cleaned = content;
          cleaned = replace_all usageRegex (\<lambda>name. name) cleaned;
          cleaned = replace_all defaultUsageRegex
            (\<lambda>varName. case defaultNameRegex varName of Some (name, _) \<Rightarrow> name | None \<Rightarrow> varName)
            cleaned;
          cleaned = replace_all directUsageRegex (\<lambda>name. name) cleaned
      in cleaned)"

text \<open>
  Lines 183 to 225.  The two loops search the content as it came in and delete from
  the text being transformed.  The patterns are
  \<^verbatim>\<open>/\/\* harmony import \*\/ var ([^=]+) = __webpack_require__\(\/\*! ([^*]+) \*\/ "([^"]+)"\);?\s*\n?/g\<close>
  and
  \<^verbatim>\<open>/\/\* harmony import \*\/ var ([^=]+)___default = \/\*#__PURE__\*\/__webpack_require__\.n\(([^)]+)\);\s*\n?/g\<close>.
\<close>

definition harmonyImportRegex :: "string \<Rightarrow> ((string \<times> string \<times> string) \<times> string) option" where
  \<open>harmonyImportRegex =
     lit ''/* harmony import */ var '' (plus_g (\<lambda>c. c \<noteq> CHR ''='') (\<lambda>varName.
       lit '' = __webpack_require__(/*! '' (plus_g (\<lambda>c. c \<noteq> CHR ''*'') (\<lambda>originalPath.
         lit '' */ "'' (plus_g (\<lambda>c. c \<noteq> DQ) (\<lambda>webpackPath.
           lit ''")'' (opt_g (CHR '';'') (star_g is_space [] (\<lambda>_.
             opt_g NL (accept (varName, originalPath, webpackPath)))))))))))\<close>

definition defaultImportRegex :: "string \<Rightarrow> ((string \<times> string) \<times> string) option" where
  "defaultImportRegex =
     lit ''/* harmony import */ var '' (plus_g (\<lambda>c. c \<noteq> CHR ''='') (\<lambda>varName.
       lit ''___default = /*#__PURE__*/__webpack_require__.n('' (plus_g (\<lambda>c. c \<noteq> CHR '')'') (\<lambda>importVar.
         lit '');'' (star_g is_space [] (\<lambda>_. opt_g NL (accept (varName, importVar))))))))"

definition import_step :: "string list \<Rightarrow> string \<Rightarrow> (string \<times> string \<times> string) \<times> string \<Rightarrow>
    string \<times> string list \<Rightarrow> string \<times> string list" where
  "import_step cwd currentModulePath m st =
     (case m of ((varName, originalPath, webpackPath), fullMatch) \<Rightarrow>
        let relativePath = calculateRelativePath cwd currentModulePath webpackPath in
        (case generateImportStatement (trim varName) relativePath of
           Some importStatement \<Rightarrow> (remove_first fullMatch (fst st), snd st @ [importStatement])
         | None \<Rightarrow> st))"

definition transformImports :: "string list \<Rightarrow> string \<Rightarrow> string \<Rightarrow> string" where
  "transformImports cwd content currentModulePath =
     (case fold (import_step cwd currentModulePath) (exec_loop harmonyImportRegex content) (content, []) of
        (transformed, imports) \<Rightarrow>
          let transformed = fold (\<lambda>m t. remove_first (snd m) t) (exec_loop defaultImportRegex content) transformed;
              transformed = replaceImportUsage transformed
          in if length imports > 0 then join [NL] imports @ [NL, NL] @ transformed else transformed)"

section \<open>The export rewriter\<close>

text \<open>
  Lines 351 to 368 and 373 to 404 build their patterns with \<open>new RegExp\<close> from the
  exported value: \<^verbatim>\<open>class\s+NAME\s*\{\<close>, \<^verbatim>\<open>function\s+NAME\s*\(\<close> and
  \<^verbatim>\<open>const\s+NAME\s*=\<close>, \<^verbatim>\<open>let\s+NAME\s*=\<close>, \<^verbatim>\<open>var\s+NAME\s*=\<close>.  A name of
  letters, digits and underscores stands for itself in a pattern, and in the
  replacement text of \<open>replace\<close>.  Any other character may be pattern syntax (or make
  the constructor throw); what the code does with such a name is not modelled: the
  functions below return \<open>None\<close> for it.
\<close>

definition word_char :: "char \<Rightarrow> bool" where
  "word_char c = (is_lower c \<or> is_upper c \<or> is_digit c \<or> c = CHR ''_'')"

definition declRegex :: "string \<Rightarrow> string \<Rightarrow> string \<Rightarrow> string \<Rightarrow> (unit \<times> string) option" where
  "declRegex keyword name opening =
     lit keyword (plus_g is_space (\<lambda>_. lit name (star_g is_space [] (\<lambda>_. lit opening (accept ())))))"

definition classRegex :: "string \<Rightarrow> string \<Rightarrow> (unit \<times> string) option" where
  "classRegex name = declRegex ''class'' name ''{''"

definition functionRegex :: "string \<Rightarrow> string \<Rightarrow> (unit \<times> string) option" where
  "functionRegex name = declRegex ''function'' name ''(''"

definition constRegex :: "string \<Rightarrow> string \<Rightarrow> (unit \<times> string) option" where
  "constRegex name = declRegex ''const'' name ''=''"

definition letRegex :: "string \<Rightarrow> string \<Rightarrow> (unit \<times> string) option" where
  "letRegex name = declRegex ''let'' name ''=''"

definition varRegex :: "string \<Rightarrow> string \<Rightarrow> (unit \<times> string) option" where
  "varRegex name = declRegex ''var'' name ''=''"

text \<open>An element of the \<open>exports\<close> array: a statement (a string) or an object with the
  fields \<open>type\<close> and \<open>name\<close>.\<close>

datatype export_info = Statement string | Info string string

definition generateExportStatement :: "string \<Rightarrow> string \<Rightarrow> string \<Rightarrow> export_info option" where
  "generateExportStatement exportName exportValue content =
     (if \<not> list_all word_char exportValue then None
      else if test (classRegex exportValue) content then Some (Info ''class'' exportValue)
      else if test (functionRegex exportValue) content then Some (Info ''function'' exportValue)
      else if test (constRegex exportValue) content \<or> test (letRegex exportValue) content
              \<or> test (varRegex exportValue) content
      then Some (Info ''variable'' exportValue)
      else Some (Info ''variable'' exportValue))"

definition apply_export :: "export_info \<Rightarrow> string option \<Rightarrow> string option" where
  "apply_export exportInfo st =
     (case st of
        None \<Rightarrow> None
      | Some transformed \<Rightarrow>
         (case exportInfo of
            Statement stmt \<Rightarrow> Some (transformed @ [NL] @ stmt)
          | Info type name \<Rightarrow>
              if type = ''class'' then
                (if list_all word_char name
                 then Some (replace_all (classRegex name) (\<lambda>_. ''export class '' @ name @ '' {'') transformed)
                 else None)
              else if type = ''function'' then
                (if list_all word_char name
                 then Some (replace_all (functionRegex name) (\<lambda>_. ''export function '' @ name @ ''('') transformed)
                 else None)
              else if type = ''variable'' then Some (transformed @ [NL] @ ''export { '' @ name @ '' };'')
              else Some transformed))"

definition applyExportStatements :: "string \<Rightarrow> export_info list \<Rightarrow> string option" where
  "applyExportStatements content exports = fold apply_export exports (Some content)"

text \<open>
  Lines 311 to 346, with the patterns
  \<^verbatim>\<open>/__webpack_require__\.d\(__webpack_exports__,\s*"([^"]+)",\s*function\(\)\s*\{\s*return\s+([^;]+);\s*\}\);\s*\n?/g\<close>
  and \<^verbatim>\<open>/module\.exports\s*=\s*([^;]+);?\s*\n?/g\<close>.
\<close>

definition export_return :: "string \<Rightarrow> string \<Rightarrow> ((string \<times> string) \<times> string) option" where
  "export_return exportName =
     lit ''return'' (plus_g is_space (\<lambda>_. plus_g (\<lambda>c. c \<noteq> CHR '';'') (\<lambda>exportValue.
       lit '';'' (star_g is_space [] (\<lambda>_. lit ''});'' (star_g is_space [] (\<lambda>_.
         opt_g NL (accept (exportName, exportValue)))))))))"

definition exportBindingRegex :: "string \<Rightarrow> ((string \<times> string) \<times> string) option" where
  \<open>exportBindingRegex =
     lit ''__webpack_require__.d(__webpack_exports__,'' (star_g is_space [] (\<lambda>_.
       lit ''"'' (plus_g (\<lambda>c. c \<noteq> DQ) (\<lambda>exportName.
         lit ''",'' (star_g is_space [] (\<lambda>_. lit ''function()'' (star_g is_space [] (\<lambda>_.
           lit ''{'' (star_g is_space [] (\<lambda>_. export_return exportName))))))))))\<close>

definition moduleExportsRegex :: "string \<Rightarrow> (string \<times> string) option" where
  "moduleExportsRegex =
     lit ''module.exports'' (star_g is_space [] (\<lambda>_. lit ''='' (star_g is_space [] (\<lambda>_.
       plus_g (\<lambda>c. c \<noteq> CHR '';'') (\<lambda>exportValue.
         opt_g (CHR '';'') (star_g is_space [] (\<lambda>_. opt_g NL (accept exportValue))))))))"

definition export_step :: "(string \<times> string) \<times> string \<Rightarrow>
    (string \<times> export_info list) option \<Rightarrow> (string \<times> export_info list) option" where
  "export_step m st =
     (case st of
        None \<Rightarrow> None
      | Some (transformed, exports) \<Rightarrow>
          (case m of ((exportName, exportValue), fullMatch) \<Rightarrow>
             (case generateExportStatement exportName exportValue transformed of
                None \<Rightarrow> None
              | Some exportStatement \<Rightarrow>
                  Some (remove_first fullMatch transformed, exports @ [exportStatement]))))"

definition default_export_step :: "string \<times> string \<Rightarrow> string \<times> export_info list \<Rightarrow> string \<times> export_info list" where
  "default_export_step m st =
     (case m of (exportValue, fullMatch) \<Rightarrow>
        (remove_first fullMatch (fst st),
         snd st @ [Statement (''export default '' @ exportValue @ '';'')]))"

definition transformExports :: "string \<Rightarrow> string option" where
  "transformExports content =
     (case fold export_step (exec_loop exportBindingRegex content) (Some (content, [])) of
        None \<Rightarrow> None
      | Some st \<Rightarrow>
          (case fold default_export_step (exec_loop moduleExportsRegex content) st of
             (transformed, exports) \<Rightarrow> applyExportStatements transformed exports))"

section \<open>Boilerplate removal, the artifact finalizer and the pipeline\<close>

text \<open>
  Lines 168 to 178: \<^verbatim>\<open>/^"use strict";\s*\n?/\<close> is tried at the start of the content
  only; \<^verbatim>\<open>/__webpack_require__\.r\(__webpack_exports__\);\s*\n?/g\<close> everywhere.
\<close>

definition useStrictRegex :: "string \<Rightarrow> (unit \<times> string) option" where
  \<open>useStrictRegex = lit ''"use strict";'' (star_g is_space [] (\<lambda>_. opt_g NL (accept ())))\<close>

definition esModuleRegex :: "string \<Rightarrow> (unit \<times> string) option" where
  "esModuleRegex =
     lit ''__webpack_require__.r(__webpack_exports__);'' (star_g is_space [] (\<lambda>_. opt_g NL (accept ())))"

definition removeWebpackBoilerplate :: "string \<Rightarrow> string" where
  "removeWebpackBoilerplate content =
     (let cleaned = content;
          cleaned = (case useStrictRegex cleaned of Some (_, r) \<Rightarrow> r | None \<Rightarrow> cleaned);
          cleaned = replace_all esModuleRegex (\<lambda>_. []) cleaned
      in cleaned)"

text \<open>
  Lines 409 to 428: \<^verbatim>\<open>/__webpack_require__\([^)]+\)/g\<close>,
  \<^verbatim>\<open>/\/\* harmony export \([^)]+\) \*\/\s*/g\<close>, \<^verbatim>\<open>/\/\*!\s*[^*]*\s*\*\//g\<close>,
  \<^verbatim>\<open>/\n{3,}/g\<close> (replaced by two line feeds) and \<^verbatim>\<open>/[ \t]+$/gm\<close>.
\<close>

definition requireCallRegex :: "string \<Rightarrow> (unit \<times> string) option" where
  "requireCallRegex =
     lit ''__webpack_require__('' (plus_g (\<lambda>c. c \<noteq> CHR '')'') (\<lambda>_. lit '')'' (accept ())))"

definition harmonyExportRegex :: "string \<Rightarrow> (unit \<times> string) option" where
  "harmonyExportRegex =
     lit ''/* harmony export ('' (plus_g (\<lambda>c. c \<noteq> CHR '')'') (\<lambda>_.
       lit '') */'' (star_g is_space [] (\<lambda>_. accept ()))))"

definition moduleCommentRegex :: "string \<Rightarrow> (unit \<times> string) option" where
  "moduleCommentRegex =
     lit ''/*!'' (star_g is_space [] (\<lambda>_. star_g (\<lambda>c. c \<noteq> CHR ''*'') [] (\<lambda>_.
       star_g is_space [] (\<lambda>_. lit ''*/'' (accept ())))))"

definition emptyLinesRegex :: "string \<Rightarrow> (unit \<times> string) option" where
  "emptyLinesRegex = lit [NL, NL, NL] (star_g (\<lambda>c. c = NL) [] (\<lambda>_. accept ()))"

definition trailingSpaceRegex :: "string \<Rightarrow> (unit \<times> string) option" where
  "trailingSpaceRegex = plus_g blank (\<lambda>_. eol (accept ()))"

definition cleanupWebpackArtifacts :: "string \<Rightarrow> string" where
  "cleanupWebpackArtifacts content =
     (let cleaned = content;
          cleaned = replace_all requireCallRegex (\<lambda>_. []) cleaned;
          cleaned = replace_all harmonyExportRegex (\<lambda>_. []) cleaned;
          cleaned = replace_all moduleCommentRegex (\<lambda>_. []) cleaned;
          cleaned = replace_all emptyLinesRegex (\<lambda>_. [NL, NL]) cleaned;
          cleaned = replace_all trailingSpaceRegex (\<lambda>_. []) cleaned
      in cleaned)"

text \<open>Lines 147 to 163.\<close>

definition transformModuleContent :: "string list \<Rightarrow> string \<Rightarrow> string \<Rightarrow> string option" where
  "transformModuleContent cwd content currentModulePath =
     (let transformed = content;
          transformed = removeWebpackBoilerplate transformed;
          transformed = transformImports cwd transformed currentModulePath
      in case transformExports transformed of
           None \<Rightarrow> None
         | Some transformed \<Rightarrow> Some (trim (cleanupWebpackArtifacts transformed)))"

text \<open>
  Lines 113 to 142 and 17 to 38.  The file system is left out: what \<open>processModule\<close>
  writes is the pair of the clean path (under the output directory) and the
  transformed content, and \<open>processModules\<close> returns the writes in the order of the
  modules map.  \<open>deconstruct\<close> stops at the error of \<open>parseModules\<close>, before any module
  is processed.
\<close>

definition processModule :: "string list \<Rightarrow> string \<times> module_data \<Rightarrow> (string \<times> string) option" where
  "processModule cwd entry =
     (case entry of (modulePath, moduleData) \<Rightarrow>
        let cleanPath = strip_dot_slash modulePath in
        (case transformModuleContent cwd (mod_content moduleData) modulePath of
           None \<Rightarrow> None
         | Some transformedContent \<Rightarrow> Some (cleanPath, transformedContent)))"

definition processModules :: "string list \<Rightarrow> deconstructor \<Rightarrow> (string \<times> string) option list" where
  "processModules cwd this = map (processModule cwd) (modules this)"

definition deconstruct :: "string list \<Rightarrow> deconstructor \<Rightarrow> string \<Rightarrow> error + (string \<times> string) option list" where
  "deconstruct cwd this bundleContent =
     (case parseModules this bundleContent of
        Inl e \<Rightarrow> Inl e
      | Inr this' \<Rightarrow> Inr (processModules cwd this'))"

section \<open>Bundle texts\<close>










section \<open>Properties of the pattern combinators\<close>

lemma lit_eq: "lit l k s = (if prefix l s then k (drop (length l) s) else None)"
  by (induction l k s rule: lit.induct) auto

lemma lit_append [simp]: "lit l k (l @ s) = k s"
  by (simp add: lit_eq)

lemma lit_SomeD: "lit l k s = Some r \<Longrightarrow> \<exists>t. s = l @ t \<and> k t = Some r"
  by (auto simp: lit_eq prefix_def split: if_splits)


lemma star_g_SomeD:
  "star_g C acc k s = Some r \<Longrightarrow> \<exists>ys zs. s = ys @ zs \<and> list_all C ys \<and> k (acc @ ys) zs = Some r"
proof (induction s arbitrary: acc)
  case Nil
  then show ?case by simp
next
  case (Cons c cs)
  show ?case
  proof (cases "C c \<and> star_g C (acc @ [c]) k cs \<noteq> None")
    case True
    then obtain r' where r': "star_g C (acc @ [c]) k cs = Some r'" by auto
    with Cons.prems True have "r' = r" by simp
    with Cons.IH[of "acc @ [c]"] r' obtain ys zs where
      "cs = ys @ zs" "list_all C ys" "k ((acc @ [c]) @ ys) zs = Some r" by blast
    with True show ?thesis
      by (intro exI[of _ "c # ys"] exI[of _ zs]) simp
  next
    case False
    with Cons.prems have "k acc (c # cs) = Some r"
      by (auto split: if_splits option.splits)
    then show ?thesis
      by (intro exI[of _ "[]"] exI[of _ "c # cs"]) simp
  qed
qed

lemma star_g_max:
  "list_all C ys \<Longrightarrow> zs = [] \<or> \<not> C (hd zs) \<Longrightarrow> k (acc @ ys) zs = Some r \<Longrightarrow>
   star_g C acc k (ys @ zs) = Some r"
proof (induction ys arbitrary: acc)
  case Nil
  then show ?case by (cases zs) auto
next
  case (Cons y ys)
  from Cons.prems have "star_g C (acc @ [y]) k (ys @ zs) = Some r"
    by (intro Cons.IH) auto
  with Cons.prems show ?case by simp
qed

lemma star_g_None:
  "(\<And>ys zs. s = ys @ zs \<Longrightarrow> list_all C ys \<Longrightarrow> k (acc @ ys) zs = None) \<Longrightarrow> star_g C acc k s = None"
proof (induction s arbitrary: acc)
  case Nil
  then show ?case by simp
next
  case (Cons c cs)
  have a: "k acc (c # cs) = None" using Cons.prems[of "[]" "c # cs"] by simp
  have "star_g C (acc @ [c]) k cs = None" if "C c"
  proof (rule Cons.IH)
    fix ys zs assume "cs = ys @ zs" "list_all C ys"
    with that Cons.prems[of "c # ys" zs] show "k ((acc @ [c]) @ ys) zs = None" by simp
  qed
  with a show ?case by simp
qed


lemma star_l_SomeD:
  "star_l C acc k s = Some r \<Longrightarrow> \<exists>ys zs. s = ys @ zs \<and> list_all C ys \<and> k (acc @ ys) zs = Some r"
proof (induction s arbitrary: acc)
  case Nil
  then show ?case by simp
next
  case (Cons c cs)
  show ?case
  proof (cases "k acc (c # cs)")
    case (Some r')
    with Cons.prems have "r' = r" by simp
    with Some show ?thesis by (intro exI[of _ "[]"] exI[of _ "c # cs"]) simp
  next
    case None
    with Cons.prems have c: "C c" and "star_l C (acc @ [c]) k cs = Some r"
      by (auto split: if_splits)
    with Cons.IH[of "acc @ [c]"] obtain ys zs where
      "cs = ys @ zs" "list_all C ys" "k ((acc @ [c]) @ ys) zs = Some r" by blast
    with c show ?thesis by (intro exI[of _ "c # ys"] exI[of _ zs]) simp
  qed
qed

text \<open>A lazy quantifier returns the shortest repetition on which the rest succeeds.\<close>

lemma star_l_shortest:
  "list_all C ys \<Longrightarrow> k (acc @ ys) zs = Some r \<Longrightarrow>
   (\<And>us vs. ys = us @ vs \<Longrightarrow> vs \<noteq> [] \<Longrightarrow> k (acc @ us) (vs @ zs) = None) \<Longrightarrow>
   star_l C acc k (ys @ zs) = Some r"
proof (induction ys arbitrary: acc)
  case Nil
  then show ?case by (cases zs) auto
next
  case (Cons y ys)
  have n: "k acc (y # ys @ zs) = None" using Cons.prems(3)[of "[]" "y # ys"] by simp
  have "star_l C (acc @ [y]) k (ys @ zs) = Some r"
  proof (rule Cons.IH)
    show "list_all C ys" using Cons.prems by simp
    show "k ((acc @ [y]) @ ys) zs = Some r" using Cons.prems by simp
    fix us vs assume "ys = us @ vs" "vs \<noteq> []"
    with Cons.prems(3)[of "y # us" vs] show "k ((acc @ [y]) @ us) (vs @ zs) = None" by simp
  qed
  with n Cons.prems show ?case by simp
qed

lemma star_l_None:
  "(\<And>ys zs. s = ys @ zs \<Longrightarrow> k (acc @ ys) zs = None) \<Longrightarrow> star_l C acc k s = None"
proof (induction s arbitrary: acc)
  case Nil
  then show ?case by simp
next
  case (Cons c cs)
  have a: "k acc (c # cs) = None" using Cons.prems[of "[]" "c # cs"] by simp
  have "star_l C (acc @ [c]) k cs = None"
  proof (rule Cons.IH)
    fix ys zs assume "cs = ys @ zs"
    with Cons.prems[of "c # ys" zs] show "k ((acc @ [c]) @ ys) zs = None" by simp
  qed
  with a show ?case by simp
qed

lemma plus_g_SomeD:
  "plus_g C k s = Some r \<Longrightarrow> \<exists>ys zs. s = ys @ zs \<and> ys \<noteq> [] \<and> list_all C ys \<and> k ys zs = Some r"
proof (cases s)
  case Nil
  assume "plus_g C k s = Some r"
  with Nil show ?thesis by (simp add: plus_g_def)
next
  case (Cons c cs)
  assume a: "plus_g C k s = Some r"
  with Cons have c: "C c" and "star_g C [c] k cs = Some r"
    by (auto simp: plus_g_def split: if_splits)
  from star_g_SomeD[OF this(2)] obtain ys zs where "cs = ys @ zs" "list_all C ys" "k ([c] @ ys) zs = Some r"
    by blast
  with c Cons show ?thesis by (intro exI[of _ "c # ys"] exI[of _ zs]) simp
qed

lemma plus_g_max:
  "ys \<noteq> [] \<Longrightarrow> list_all C ys \<Longrightarrow> zs = [] \<or> \<not> C (hd zs) \<Longrightarrow> k ys zs = Some r \<Longrightarrow>
   plus_g C k (ys @ zs) = Some r"
  by (cases ys) (auto simp: plus_g_def intro: star_g_max)

lemma plus_g_None:
  "(\<And>ys zs. s = ys @ zs \<Longrightarrow> ys \<noteq> [] \<Longrightarrow> list_all C ys \<Longrightarrow> k ys zs = None) \<Longrightarrow> plus_g C k s = None"
proof (cases s)
  case Nil
  then show ?thesis by (simp add: plus_g_def)
next
  case (Cons c cs)
  assume a: "\<And>ys zs. s = ys @ zs \<Longrightarrow> ys \<noteq> [] \<Longrightarrow> list_all C ys \<Longrightarrow> k ys zs = None"
  have "star_g C [c] k cs = None" if "C c"
  proof (rule star_g_None)
    fix ys zs assume "cs = ys @ zs" "list_all C ys"
    with that Cons a[of "c # ys" zs] show "k ([c] @ ys) zs = None" by simp
  qed
  with Cons show ?thesis by (simp add: plus_g_def)
qed

lemma plus_l_SomeD:
  "plus_l C k s = Some r \<Longrightarrow> \<exists>ys zs. s = ys @ zs \<and> ys \<noteq> [] \<and> list_all C ys \<and> k ys zs = Some r"
proof (cases s)
  case Nil
  assume "plus_l C k s = Some r"
  with Nil show ?thesis by (simp add: plus_l_def)
next
  case (Cons c cs)
  assume a: "plus_l C k s = Some r"
  with Cons have c: "C c" and "star_l C [c] k cs = Some r"
    by (auto simp: plus_l_def split: if_splits)
  from star_l_SomeD[OF this(2)] obtain ys zs where "cs = ys @ zs" "list_all C ys" "k ([c] @ ys) zs = Some r"
    by blast
  with c Cons show ?thesis by (intro exI[of _ "c # ys"] exI[of _ zs]) simp
qed

lemma plus_l_shortest:
  "ys \<noteq> [] \<Longrightarrow> list_all C ys \<Longrightarrow> k ys zs = Some r \<Longrightarrow>
   (\<And>us vs. ys = us @ vs \<Longrightarrow> us \<noteq> [] \<Longrightarrow> vs \<noteq> [] \<Longrightarrow> k us (vs @ zs) = None) \<Longrightarrow>
   plus_l C k (ys @ zs) = Some r"
proof (cases ys)
  case Nil
  assume "ys \<noteq> []"
  with Nil show ?thesis by simp
next
  case (Cons y ys')
  assume a: "list_all C ys" "k ys zs = Some r"
    and b: "\<And>us vs. ys = us @ vs \<Longrightarrow> us \<noteq> [] \<Longrightarrow> vs \<noteq> [] \<Longrightarrow> k us (vs @ zs) = None"
  have "star_l C [y] k (ys' @ zs) = Some r"
  proof (rule star_l_shortest)
    show "list_all C ys'" using a Cons by simp
    show "k ([y] @ ys') zs = Some r" using a Cons by simp
    fix us vs assume "ys' = us @ vs" "vs \<noteq> []"
    with b[of "y # us" vs] Cons show "k ([y] @ us) (vs @ zs) = None" by simp
  qed
  with a Cons show ?thesis by (simp add: plus_l_def)
qed

lemma opt_g_SomeD: "opt_g x k s = Some r \<Longrightarrow> (\<exists>t. s = x # t \<and> k t = Some r) \<or> k s = Some r"
  by (cases s) (auto split: if_splits option.splits)

lemma eos_Some [simp]: "eos k [] = k []"
  by (simp add: eos_def)

lemma eos_SomeD: "eos k s = Some r \<Longrightarrow> s = [] \<and> k [] = Some r"
  by (auto simp: eos_def split: if_splits)

section \<open>Properties of the import statement generator\<close>

lemma lit_eos: "lit l (eos k) s = (if s = l then k [] else None)"
  by (auto simp: lit_eq eos_def prefix_def)

lemma extensionRegex_eq:
  "extensionRegex s = (if s = ''.ts'' \<or> s = ''.js'' then Some ((), []) else None)"
  unfolding extensionRegex_def alt_def
  by (cases s) (auto simp: lit_eos accept_def)

lemma strip_extension_append:
  "ext = ''.ts'' \<or> ext = ''.js'' \<Longrightarrow> strip_extension (p @ ext) = p"
proof (induction p)
  case Nil
  then show ?case by (auto simp: strip_extension_def extensionRegex_eq)
next
  case (Cons c p)
  have "length (c # p @ ext) \<noteq> length ''.ts''" using Cons.prems by auto
  then have "c # p @ ext \<noteq> ''.ts''" "c # p @ ext \<noteq> ''.js''" by fastforce+
  then have "extensionRegex (c # p @ ext) = None"
    by (simp only: extensionRegex_eq) simp
  with Cons show ?case by (simp add: strip_extension_def)
qed

lemma includes_str_iff: "includes_str s l \<longleftrightarrow> (\<exists>a b. s = a @ l @ b)"
proof (induction s)
  case Nil
  then show ?case by auto
next
  case (Cons c s)
  show ?case
  proof
    assume "includes_str (c # s) l"
    then consider "prefix l (c # s)" | "includes_str s l" by auto
    then show "\<exists>a b. c # s = a @ l @ b"
    proof cases
      case 1
      then obtain b where "c # s = l @ b" by (auto simp: prefix_def)
      then show ?thesis by (intro exI[of _ "[]"] exI[of _ b]) simp
    next
      case 2
      with Cons obtain a b where "s = a @ l @ b" by blast
      then show ?thesis by (intro exI[of _ "c # a"] exI[of _ b]) simp
    qed
  next
    assume "\<exists>a b. c # s = a @ l @ b"
    then obtain a b where ab: "c # s = a @ l @ b" by blast
    show "includes_str (c # s) l"
    proof (cases a)
      case Nil
      with ab have "prefix l (c # s)" by (simp add: prefix_def)
      then show ?thesis by simp
    next
      case (Cons a0 a')
      with ab have "s = a' @ l @ b" by simp
      with Cons.IH show ?thesis by auto
    qed
  qed
qed

lemma includes_str_single: "includes_str s [c] \<longleftrightarrow> c \<in> set s"
  by (induction s) auto


lemma marker_unique:
  assumes eq: "vs @ M @ ds @ t = M @ ds' @ t'"
    and m: "M \<noteq> []" "\<not> C (last M)"
    and d: "list_all C ds'" and len: "length vs + length ds \<le> length ds'"
  shows "vs = []"
proof (rule ccontr)
  assume ne: "vs \<noteq> []"
  define i where "i = length vs + length M - 1"
  have "i - length vs = length M - 1" "\<not> i < length vs"
    using m(1) by (cases M; simp add: i_def)+
  then have "(vs @ M @ ds @ t) ! i = (M @ ds @ t) ! (length M - 1)"
    by (simp add: nth_append)
  also have "\<dots> = M ! (length M - 1)"
    using m(1) by (simp add: nth_append)
  finally have l: "(vs @ M @ ds @ t) ! i = last M"
    using m(1) by (simp add: last_conv_nth)
  from ne have lt: "length vs - 1 < length ds'" using len by (cases vs) auto
  have "i - length M = length vs - 1" "\<not> i < length M"
    using ne m(1) by (cases vs; cases M; simp add: i_def)+
  then have "(M @ ds' @ t') ! i = ds' ! (length vs - 1)"
    using lt by (simp add: nth_append)
  with l eq have "ds' ! (length vs - 1) = last M" by simp
  moreover have "C (ds' ! (length vs - 1))" using d lt by (simp add: list_all_length)
  ultimately show False using m(2) by simp
qed

lemma nameRegex_stem:
  assumes "stem \<noteq> []" "list_all (\<lambda>c. \<not> line_term c) stem" "ds \<noteq> []" "list_all is_digit ds"
  shows "nameRegex (''_'' @ stem @ IMPORTED_MODULE @ ds @ ''__'') = Some (stem, [])"
proof -
  let ?k = "\<lambda>importName. lit IMPORTED_MODULE (plus_g is_digit (\<lambda>_. lit ''__'' (eos (accept importName))))"
  have tail: "plus_g is_digit (\<lambda>_. lit ''__'' (eos (accept n))) (ds @ ''__'') = Some (n, [])" for n :: string
    using assms by (intro plus_g_max) (auto simp: is_digit_def accept_def)
  have ok: "?k stem (IMPORTED_MODULE @ ds @ ''__'') = Some (stem, [])"
    using tail by (simp only: lit_append)
  have "plus_l (\<lambda>c. \<not> line_term c) ?k (stem @ IMPORTED_MODULE @ ds @ ''__'') = Some (stem, [])"
  proof (rule plus_l_shortest[where k = "?k"])
    show "stem \<noteq> []" "list_all (\<lambda>c. \<not> line_term c) stem" by (fact assms)+
    show "?k stem (IMPORTED_MODULE @ ds @ ''__'') = Some (stem, [])" by (fact ok)
    fix us vs assume s: "stem = us @ vs" "us \<noteq> []" "vs \<noteq> []"
    show "?k us (vs @ IMPORTED_MODULE @ ds @ ''__'') = None"
    proof (rule ccontr)
      assume "?k us (vs @ IMPORTED_MODULE @ ds @ ''__'') \<noteq> None"
      then obtain r where r: "?k us (vs @ IMPORTED_MODULE @ ds @ ''__'') = Some r" by auto
      from lit_SomeD[OF r] obtain t where t: "vs @ IMPORTED_MODULE @ ds @ ''__'' = IMPORTED_MODULE @ t"
        and p: "plus_g is_digit (\<lambda>_. lit ''__'' (eos (accept us))) t = Some r" by blast
      from plus_g_SomeD[OF p] obtain ds' t' where t': "t = ds' @ t'" "list_all is_digit ds'"
        and q: "lit ''__'' (eos (accept us)) t' = Some r" by blast
      from q have "t' = ''__''" by (auto simp: lit_eos split: if_splits)
      with t t' have eq: "vs @ IMPORTED_MODULE @ ds @ ''__'' = IMPORTED_MODULE @ ds' @ ''__''" by simp
      from arg_cong[OF eq, of length] have "length vs + length ds \<le> length ds'" by simp
      have "\<not> is_digit (last IMPORTED_MODULE)" by (simp add: is_digit_def)
      from marker_unique[OF eq _ this t'(2) \<open>length vs + length ds \<le> length ds'\<close>] s
      show False by simp
    qed
  qed
  then show ?thesis unfolding nameRegex_def by (simp only: lit_append)
qed

lemma pascalRegex_iff:
  "pascalRegex s \<noteq> None \<longleftrightarrow> (\<exists>c cs. s = c # cs \<and> is_upper c \<and> list_all alnum cs)"
proof
  assume "pascalRegex s \<noteq> None"
  then obtain r where r: "pascalRegex s = Some r" by auto
  then obtain c cs where s: "s = c # cs" "is_upper c"
    and t: "star_g alnum [] (\<lambda>_. eos (accept ())) cs = Some r"
    by (cases s) (auto simp: pascalRegex_def split: if_splits)
  from star_g_SomeD[OF t] obtain ys zs where "cs = ys @ zs" "list_all alnum ys" "eos (accept ()) zs = Some r"
    by blast
  with s show "\<exists>c cs. s = c # cs \<and> is_upper c \<and> list_all alnum cs"
    by (auto dest: eos_SomeD)
next
  assume "\<exists>c cs. s = c # cs \<and> is_upper c \<and> list_all alnum cs"
  then obtain c cs where s: "s = c # cs" "is_upper c" "list_all alnum cs" by blast
  have "star_g alnum [] (\<lambda>_. eos (accept ())) (cs @ []) = Some ((), [])"
    using s by (intro star_g_max) (auto simp: accept_def)
  with s show "pascalRegex s \<noteq> None" by (simp add: pascalRegex_def)
qed

lemma alnum_not_underscore: "alnum c \<Longrightarrow> c \<noteq> CHR ''_''"
  by (auto simp: alnum_def is_lower_def is_upper_def is_digit_def)

lemma pascal_no_underscore:
  assumes "is_upper c" "list_all alnum cs" shows "CHR ''_'' \<notin> set (c # cs)"
  using assms by (auto simp: list_all_iff is_upper_def dest: alnum_not_underscore)

section \<open>Properties of the scanner loop and of the path functions\<close>

lemma strip_common_append: "strip_common (xs @ ys) (xs @ zs) = strip_common ys zs"
  by (induction xs) auto

lemma substring_from_None_iff: "substring_from pat s = None \<longleftrightarrow> \<not> includes_str s pat"
  by (induction s) auto

lemma parse_step_count:
  "snd (fold parse_step ms st) =
     snd st + length (filter (\<lambda>m. \<not> prefix ''./node_modules/'' (fst (fst m))) ms)"
proof (induction ms arbitrary: st)
  case Nil
  then show ?case by simp
next
  case (Cons m ms)
  obtain p ps c f where m: "m = ((p, ps, c), f)" by (metis prod.exhaust)
  have "snd (parse_step m st) = snd st + (if prefix ''./node_modules/'' p then 0 else 1)"
    by (simp add: parse_step_def m)
  with Cons.IH[of "parse_step m st"] m show ?case by simp
qed

section \<open>Properties of searching, replacing and the declaration patterns\<close>




lemma replace_all_id:
  "(\<And>i. i \<le> length s \<Longrightarrow> m (drop i s) = None) \<Longrightarrow> replace_all m f s = s"
proof (induction s)
  case Nil
  then show ?case using Nil[of 0] by simp
next
  case (Cons c s)
  have "m (c # s) = None" using Cons.prems[of 0] by simp
  moreover have "replace_all m f s = s"
  proof (rule Cons.IH)
    fix i assume "i \<le> length s"
    with Cons.prems[of "Suc i"] show "m (drop i s) = None" by simp
  qed
  ultimately show ?case by simp
qed







section \<open>The module pattern on one module of the registry\<close>













section \<open>The scanner on a registry text\<close>

















section \<open>Texts in which a pattern cannot match\<close>


lemma lit_None_char: "x \<in> set l \<Longrightarrow> x \<notin> set s \<Longrightarrow> lit l k s = None"
  by (auto simp: lit_eq prefix_def)


lemma replace_all_id_char:
  assumes "\<And>t. x \<notin> set t \<Longrightarrow> m t = None" "x \<notin> set s"
  shows "replace_all m f s = s"
proof (rule replace_all_id)
  fix i
  have "set (drop i s) \<subseteq> set s" by (rule set_drop_subset)
  with assms(2) have "x \<notin> set (drop i s)" by blast
  then show "m (drop i s) = None" by (rule assms(1))
qed








section \<open>The usage patterns\<close>








subsection \<open>The bracket-style lookup\<close>

lemma usageRegex_inert: "CHR ''_'' \<notin> set t \<Longrightarrow> usageRegex t = None"
proof (cases t)
  case Nil
  then show ?thesis by (simp add: usageRegex_def)
next
  case (Cons c cs)
  assume n: "CHR ''_'' \<notin> set t"
  have "star_g id_char [c] (\<lambda>_. lit IMPORTED_MODULE (plus_g is_digit (\<lambda>_. lit ''__'' (
         lit ''[\"'' (plus_g (\<lambda>c. c \<noteq> DQ) (\<lambda>name. lit ''\"]'' (accept name))))))) cs = None"
  proof (rule star_g_None)
    fix ys zs assume "cs = ys @ zs"
    with n Cons have "CHR ''_'' \<notin> set zs" by auto
    then show "lit IMPORTED_MODULE (plus_g is_digit (\<lambda>_. lit ''__'' (
         lit ''[\"'' (plus_g (\<lambda>c. c \<noteq> DQ) (\<lambda>name. lit ''\"]'' (accept name)))))) zs = None"
      by (intro lit_None_char[of "CHR ''_''"]) simp_all
  qed
  with Cons show ?thesis by (simp add: usageRegex_def)
qed









subsection \<open>The interop-default suffix\<close>

lemma defaultUsageRegex_inert: "CHR ''_'' \<notin> set t \<Longrightarrow> defaultUsageRegex t = None"
proof (cases t)
  case Nil
  then show ?thesis by (simp add: defaultUsageRegex_def)
next
  case (Cons c cs)
  assume n: "CHR ''_'' \<notin> set t"
  have "star_g id_char [c] (\<lambda>varName. lit ''___default'' (accept varName)) cs = None"
  proof (rule star_g_None)
    fix ys zs assume "cs = ys @ zs"
    with n Cons have "CHR ''_'' \<notin> set zs" by auto
    then show "lit ''___default'' (accept ([c] @ ys)) zs = None"
      by (intro lit_None_char[of "CHR ''_''"]) simp_all
  qed
  with Cons show ?thesis by (simp add: defaultUsageRegex_def)
qed





subsection \<open>The bare identifier\<close>

lemma directUsageRegex_inert: "CHR ''_'' \<notin> set t \<Longrightarrow> directUsageRegex t = None"
  unfolding directUsageRegex_def by (intro lit_None_char[of "CHR ''_''"]) simp_all











text \<open>The three replacements of \<open>replaceImportUsage\<close> on a text without underscores.\<close>

lemma replaceImportUsage_inert: "CHR ''_'' \<notin> set s \<Longrightarrow> replaceImportUsage s = s"
  unfolding replaceImportUsage_def Let_def
  by (simp add: replace_all_id_char[where x = "CHR ''_''"] usageRegex_inert defaultUsageRegex_inert
      directUsageRegex_inert)












section \<open>A module body with one call of the loader\<close>


















lemma blank_not_line_term: "blank c \<Longrightarrow> \<not> line_term c"
  by (auto simp: blank_def line_term_def)







section \<open>The claims\<close>

subsection \<open>C6: the shape of an import statement\<close>

text \<open>
  Claim C6, as amended.  For a local binding name made of an underscore, a stem, the
  marker \<open>__WEBPACK_IMPORTED_MODULE_\<close>, a module index and two underscores (the stem not
  empty and without a line terminator), \<open>generateImportStatement\<close> emits a default
  import \<open>import Stem from '...'\<close> when the stem is one capital letter followed by
  letters and digits only, and otherwise a named import \<open>import { Stem } from '...'\<close>
  of the stem with its underscores deleted.  The specifier is the relative path
  without its extension.
\<close>

theorem import_shape_from_stem:
  assumes "stem \<noteq> []" and "list_all (\<lambda>c. \<not> line_term c) stem"
    and "ds \<noteq> []" and "list_all is_digit ds"
  shows "generateImportStatement (''_'' @ stem @ IMPORTED_MODULE @ ds @ ''__'') relativePath =
    Some (if is_upper (hd stem) \<and> list_all alnum (tl stem)
          then ''import '' @ stem @ '' from '' @ [SQ] @ strip_extension relativePath @ [SQ] @ '';''
          else ''import { '' @ filter (\<lambda>c. c \<noteq> CHR ''_'') stem @ '' } from '' @ [SQ]
                 @ strip_extension relativePath @ [SQ] @ '';'')"
proof -
  let ?v = "''_'' @ stem @ IMPORTED_MODULE @ ds @ ''__''"
  have inc: "includes_str ?v IMPORTED_MODULE"
    unfolding includes_str_iff by (intro exI[of _ "''_'' @ stem"] exI[of _ "ds @ ''__''"]) simp
  have nm: "nameRegex ?v = Some (stem, [])" by (rule nameRegex_stem[OF assms])
  have p1: "pascalRegex stem \<noteq> None \<longleftrightarrow> is_upper (hd stem) \<and> list_all alnum (tl stem)"
    unfolding pascalRegex_iff using assms(1) by (cases stem) auto
  have p2: "\<not> includes_str stem ''_''" if "is_upper (hd stem) \<and> list_all alnum (tl stem)"
    using that assms(1) pascal_no_underscore[of "hd stem" "tl stem"]
    by (cases stem) (auto simp: includes_str_single simp del: includes_str.simps)
  have p: "pascalRegex stem \<noteq> None \<and> \<not> includes_str stem ''_'' \<longleftrightarrow>
           is_upper (hd stem) \<and> list_all alnum (tl stem)"
    using p1 p2 by blast
  show ?thesis
    unfolding generateImportStatement_def Let_def
    using p by (simp only: inc nm if_True option.case prod.case import_from_def) (simp del: includes_str.simps)
qed

text \<open>The stem \<open>Globals\<close> yields a default import.\<close>

theorem import_shape_witness:
  "generateImportStatement ''_Globals__WEBPACK_IMPORTED_MODULE_0__'' ''./data/Globals'' =
     Some (''import Globals from '' @ [SQ] @ ''./data/Globals'' @ [SQ] @ '';'')"
proof -
  have e: "strip_extension ''./data/Globals'' = ''./data/Globals''" by code_simp
  have "list_all (\<lambda>c. \<not> line_term c) ''Globals''" "list_all is_digit ''0''"
       "is_upper (hd ''Globals'') \<and> list_all alnum (tl ''Globals'')" by code_simp+
  with import_shape_from_stem[of "''Globals''" "''0''" "''./data/Globals''"] e
  show ?thesis by simp
qed

text \<open>
  Claim C6 as stated fails for a binding name that embeds the marker and the index
  but does not begin with an underscore (the name webpack generates for a bare
  package request): no stem is extracted, and the whole name is imported.
\<close>

theorem import_shape_counterexample:
  "generateImportStatement ''react__WEBPACK_IMPORTED_MODULE_0__'' ''./vendor/react'' =
     Some (''import { react__WEBPACK_IMPORTED_MODULE_0__ } from '' @ [SQ] @ ''./vendor/react'' @ [SQ] @ '';'')"
  by code_simp

subsection \<open>C9: the extension of the specifier\<close>

text \<open>
  Claim C9.  Whenever \<open>generateImportStatement\<close> emits a statement for a relative path
  that ends in \<open>.ts\<close> or \<open>.js\<close>, the specifier between the quotes is the path with that
  extension removed.
\<close>

theorem extension_stripped:
  assumes "ext = ''.ts'' \<or> ext = ''.js''"
    and "generateImportStatement varName (p @ ext) = Some statement"
  shows "\<exists>binding. statement = ''import '' @ binding @ '' from '' @ [SQ] @ p @ [SQ] @ '';''"
  using assms(2) unfolding generateImportStatement_def Let_def strip_extension_append[OF assms(1)] import_from_def
  by (auto split: option.splits if_splits)

theorem extension_stripped_witness:
  "generateImportStatement ''_data_Globals__WEBPACK_IMPORTED_MODULE_0__'' (''./data/Globals'' @ ''.ts'') =
     Some (''import { dataGlobals } from '' @ [SQ] @ ''./data/Globals'' @ [SQ] @ '';'')
   \<and> (\<exists>binding. ''import { dataGlobals } from '' @ [SQ] @ ''./data/Globals'' @ [SQ] @ '';'' =
         ''import '' @ binding @ '' from '' @ [SQ] @ ''./data/Globals'' @ [SQ] @ '';'')"
proof -
  have a: "generateImportStatement ''_data_Globals__WEBPACK_IMPORTED_MODULE_0__'' (''./data/Globals'' @ ''.ts'') =
     Some (''import { dataGlobals } from '' @ [SQ] @ ''./data/Globals'' @ [SQ] @ '';'')"
    by code_simp
  from extension_stripped[OF _ a] a show ?thesis by simp
qed

subsection \<open>C3: the prefix of a relative specifier\<close>

text \<open>
  Claim C3 says that \<open>calculateRelativePath\<close> always returns a specifier that begins
  with \<open>./\<close> or \<open>../\<close>.  The code adds \<open>./\<close> only when the relative path does not begin
  with a dot, so a target in a directory whose name begins with a dot is returned bare,
  whatever the working directory.
\<close>

theorem relative_path_dot_directory:
  "calculateRelativePath cwd ''./src/index.js'' ''./src/.config/settings.js'' = ''.config/settings.js''"
proof -
  have d: "dirname ''src/index.js'' = ''src''" by code_simp
  have s1: "split_on (CHR ''/'') ''src'' = [''src'']" by code_simp
  have s2: "split_on (CHR ''/'') ''src/.config/settings.js'' = [''src'', ''.config'', ''settings.js'']"
    by code_simp
  have r: "relative cwd ''src'' ''src/.config/settings.js'' = ''.config/settings.js''"
    unfolding relative_def resolve_def s1 s2
    using strip_common_append[of "cwd @ [''src'']" "[]" "[''.config'', ''settings.js'']"]
    by (simp add: normalize_onto_def)
  show ?thesis
    unfolding calculateRelativePath_def Let_def
    by (simp add: strip_dot_slash_def d r)
qed

subsection \<open>C5: the two errors of the scanner\<close>

text \<open>
  Claim C5, as amended.  \<open>parseModules\<close> throws the error with the message
  \<open>Could not find webpack module map in bundle\<close> exactly when the text \<open>/******/ ({\<close>
  does not occur in the bundle, and the error with the message
  \<open>No application modules found. The bundle format might be different than expected.\<close>
  exactly when the marker occurs and no match of the module pattern in the text from
  the marker on has a path outside \<open>./node_modules/\<close>.  In both cases \<open>deconstruct\<close> ends
  with that error and processes no module.
\<close>

theorem scanner_errors:
  "(parseModules this bundleContent = Inl (Error ''Could not find webpack module map in bundle'')
      \<longleftrightarrow> \<not> includes_str bundleContent ''/******/ ({'')
   \<and> (parseModules this bundleContent =
        Inl (Error ''No application modules found. The bundle format might be different than expected.'')
      \<longleftrightarrow> (\<exists>moduleMapSection. substring_from ''/******/ ({'' bundleContent = Some moduleMapSection
            \<and> filter (\<lambda>m. \<not> prefix ''./node_modules/'' (fst (fst m)))
                 (exec_loop moduleRegex moduleMapSection) = []))
   \<and> (\<forall>e. parseModules this bundleContent = Inl e \<longrightarrow> deconstruct cwd this bundleContent = Inl e)"
proof (cases "substring_from ''/******/ ({'' bundleContent")
  case None
  then show ?thesis
    by (simp add: parseModules_def deconstruct_def substring_from_None_iff[symmetric])
next
  case (Some sec)
  then have inc: "includes_str bundleContent ''/******/ ({''"
    using substring_from_None_iff[of "''/******/ ({''" bundleContent] by simp
  obtain ms n where f: "fold parse_step (exec_loop moduleRegex sec) (modules this, 0) = (ms, n)"
    by (metis prod.exhaust)
  have n: "n = length (filter (\<lambda>m. \<not> prefix ''./node_modules/'' (fst (fst m))) (exec_loop moduleRegex sec))"
    using parse_step_count[of "exec_loop moduleRegex sec" "(modules this, 0)"] f by simp
  show ?thesis
    using Some inc f n by (auto simp: parseModules_def deconstruct_def)
qed

theorem scanner_errors_witness:
  "parseModules (constructor ''main.js'' ''reconstructed'') ''console.log(1);'' =
     Inl (Error ''Could not find webpack module map in bundle'')
   \<and> deconstruct [] (constructor ''main.js'' ''reconstructed'') ''console.log(1);'' =
     Inl (Error ''Could not find webpack module map in bundle'')"
proof -
  have a: "\<not> includes_str ''console.log(1);'' ''/******/ ({''" by code_simp
  from scanner_errors[of "constructor ''main.js'' ''reconstructed''" "''console.log(1);''" "[]"] a
  show ?thesis by blast
qed

text \<open>Claim C5 as stated names an error \<open>FormatError("registry not found")\<close>; the error
  thrown for a bundle without the marker is a plain \<open>Error\<close> with another message.\<close>

theorem scanner_errors_counterexample:
  "parseModules (constructor ''main.js'' ''reconstructed'') ''console.log(1);'' \<noteq>
     Inl (Error ''registry not found'')"
  by code_simp

subsection \<open>C8: blank lines in the emitted text\<close>

text \<open>
  Claim C8 says that the emitted text has every run of three or more blank lines
  collapsed to one.  \<open>cleanupWebpackArtifacts\<close> collapses the runs of line feeds before
  it removes the blanks at the ends of lines, so three lines that hold only spaces
  come out as three empty lines.
\<close>

theorem blank_lines_survive:
  "transformModuleContent cwd
     (''var a = 1;'' @ [NL] @ ''  '' @ [NL] @ ''  '' @ [NL] @ ''  '' @ [NL] @ ''var b = 2;'') ''./src/a.js''
   = Some (''var a = 1;'' @ [NL, NL, NL, NL] @ ''var b = 2;'')"
  by code_simp

subsection \<open>C7: the export rewriter\<close>




subsection \<open>C1: a close marker inside a module body\<close>



subsection \<open>C4: the modules that are filtered out\<close>




subsection \<open>C10: the usage rewriting is textual\<close>



subsection \<open>C2: a call of the loader that the import patterns do not match\<close>




end
